theory Spec2Isabelle
  imports Main
begin

section \<open>Documents and the store\<close>

text \<open>
  The backend keeps three MongoDB collections (users, songs, playlists) behind Mongoose
  models. A collection is modelled as the list of its documents in insertion order; an
  ObjectId is a natural number, and a fresh one is drawn from a counter of the store when
  a document is constructed (\<^verbatim>\<open>new Model({...})\<close>).

  The song references of a request body (the elements of \<^verbatim>\<open>req.body.songs\<close>) are taken
  as ObjectIds already. The playlist id of a path (\<^verbatim>\<open>req.params.playlistId\<close>) is a
  string that Mongoose casts before it queries; the two routes that take one are modelled
  on the ObjectId first and on the string of the path after that.
\<close>

type_synonym objectId = nat

text \<open>
  \<^verbatim>\<open>bcrypt.hash(password, 10)\<close> returns a string that carries the cost, the salt and the
  digest. The digest is idealised as the bytes that were hashed: bcrypt reads at most the
  first 72 bytes of the password, and two inputs are taken to have the same digest under
  the same salt only when those bytes agree.
\<close>

datatype bcrypt_hash = BcryptHash (rounds: nat) (salt: string) (hashed: string)

definition bcrypt_hash :: "string \<Rightarrow> nat \<Rightarrow> string \<Rightarrow> bcrypt_hash" where
  "bcrypt_hash password saltRounds slt = BcryptHash saltRounds slt (take 72 password)"

definition bcrypt_compare :: "string \<Rightarrow> bcrypt_hash \<Rightarrow> bool" where
  "bcrypt_compare password h \<longleftrightarrow> bcrypt_hash password (rounds h) (salt h) = h"

record user =
  u_id :: objectId
  u_username :: string
  u_password :: bcrypt_hash

text \<open>models/Song.js and models/Playlist.js: the two schemas.\<close>

record song =
  s_id :: objectId
  s_name :: string
  s_artist :: string
  s_genre :: string
  s_filePath :: string

record playlist =
  p_id :: objectId
  p_name :: string
  p_userId :: objectId
  p_songs :: "objectId list"

text \<open>A playlist after \<^verbatim>\<open>.populate('songs')\<close>: the references replaced by documents.\<close>

record populated =
  pp_id :: objectId
  pp_name :: string
  pp_userId :: objectId
  pp_songs :: "song list"

record db =
  users :: "user list"
  songs :: "song list"
  playlists :: "playlist list"
  next_id :: objectId

section \<open>Errors and responses\<close>

text \<open>
  What a library call can throw. No route handler has a \<^verbatim>\<open>try\<close>: an error thrown inside
  an \<^verbatim>\<open>async\<close> handler rejects the handler's promise and the handler sends no response.
  That outcome is \<open>Inl e\<close>; \<open>Inr r\<close> is the response the handler sent.
\<close>

datatype error =
    DuplicateKey string
  | ValidationError string
  | CastError string
  | SecretOrPrivateKeyMissing
  | JsonWebTokenError string
  | TokenExpiredError

text \<open>
  The payload of a token: \<^verbatim>\<open>{ userId, username }\<close> as given to \<^verbatim>\<open>jwt.sign\<close>, with the
  \<^verbatim>\<open>iat\<close> and \<^verbatim>\<open>exp\<close> claims that the library adds, in seconds since the epoch.
  The HS256 signature is idealised: a token records the key it was signed with, and the
  signature verifies exactly under that key.
\<close>

record claims =
  c_userId :: objectId
  c_username :: string
  c_iat :: nat
  c_exp :: nat

record jwt =
  jwt_payload :: claims
  jwt_key :: string

datatype body =
    Message string
  | LoginBody string jwt
  | CreatedBody string playlist
  | PlaylistsBody "populated list"
  | PlaylistBody "populated option"

datatype response = Response (status: nat) (content: body)

type_synonym 'a handler = "'a \<Rightarrow> db \<Rightarrow> (error + response) \<times> db"

section \<open>Token Service: jsonwebtoken\<close>

text \<open>
  \<^verbatim>\<open>process.env.JWT_SECRET\<close> is \<open>None\<close> when the variable is not set. The library
  refuses a key that is missing or empty.

  \<^verbatim>\<open>jwt.sign(payload, secret, { expiresIn })\<close> at clock reading \<open>now\<close> (seconds):
  \<^verbatim>\<open>iat\<close> is the clock reading and \<^verbatim>\<open>exp\<close> is \<^verbatim>\<open>iat + expiresIn\<close>.
\<close>

definition jwt_sign :: "objectId \<Rightarrow> string \<Rightarrow> string option \<Rightarrow> nat \<Rightarrow> nat \<Rightarrow> error + jwt" where
  "jwt_sign userId username secret expiresIn now =
     (case secret of
        None \<Rightarrow> Inl SecretOrPrivateKeyMissing
      | Some k \<Rightarrow>
          if k = [] then Inl SecretOrPrivateKeyMissing
          else Inr \<lparr>jwt_payload =
                      \<lparr>c_userId = userId, c_username = username,
                       c_iat = now, c_exp = now + expiresIn\<rparr>,
                    jwt_key = k\<rparr>)"

text \<open>
  \<^verbatim>\<open>jwt.verify(token, secret)\<close> on a decoded token at clock reading \<open>now\<close>: the key, then
  the signature, then \<^verbatim>\<open>clockTimestamp >= payload.exp\<close>.
\<close>

definition jwt_verify :: "jwt \<Rightarrow> string option \<Rightarrow> nat \<Rightarrow> error + claims" where
  "jwt_verify token secret now =
     (case secret of
        None \<Rightarrow> Inl (JsonWebTokenError ''secret or public key must be provided'')
      | Some k \<Rightarrow>
          if k = [] then Inl (JsonWebTokenError ''secret or public key must be provided'')
          else if jwt_key token \<noteq> k then Inl (JsonWebTokenError ''invalid signature'')
          else if c_exp (jwt_payload token) \<le> now then Inl TokenExpiredError
          else Inr (jwt_payload token))"

text \<open>'1h' as the library reads it: 3600 seconds.\<close>

definition one_hour :: nat where
  "one_hour = 3600"

section \<open>Session Middleware: middlewares/authMiddleware.js\<close>

text \<open>\<^verbatim>\<open>String.prototype.split\<close> with a one-character separator.\<close>

fun split :: "char \<Rightarrow> string \<Rightarrow> string list" where
  "split sep [] = [[]]"
| "split sep (c # cs) =
     (if c = sep then [] # split sep cs
      else (case split sep cs of [] \<Rightarrow> [[c]] | w # ws \<Rightarrow> (c # w) # ws))"

text \<open>\<^verbatim>\<open>xs[i]\<close>: \<open>None\<close> is \<^verbatim>\<open>undefined\<close>.\<close>

fun index :: "'a list \<Rightarrow> nat \<Rightarrow> 'a option" where
  "index [] i = None"
| "index (x # xs) 0 = Some x"
| "index (x # xs) (Suc i) = index xs i"

text \<open>\<^verbatim>\<open>req.header('Authorization')?.split(' ')[1]\<close>\<close>

definition header_token :: "string option \<Rightarrow> string option" where
  "header_token authorization =
     (case authorization of
        None \<Rightarrow> None
      | Some h \<Rightarrow> index (split CHR '' '' h) 1)"

text \<open>
  The middleware either calls \<^verbatim>\<open>next()\<close> with the decoded payload attached to the
  request, or ends the request with a response. \<open>decode\<close> is the library's reading of the
  compact serialisation of a token (\<open>None\<close>: malformed); the \<^verbatim>\<open>catch\<close> turns every
  error of \<^verbatim>\<open>jwt.verify\<close> into the same response.
\<close>

datatype passed = Next claims | Ended response

definition authMiddleware ::
    "(string \<Rightarrow> jwt option) \<Rightarrow> string option \<Rightarrow> nat \<Rightarrow> string option \<Rightarrow> passed" where
  "authMiddleware decode secret now authorization =
     (case header_token authorization of
        None \<Rightarrow> Ended (Response 401 (Message ''No token provided, authorization denied''))
      | Some token \<Rightarrow>
          if token = [] then
            Ended (Response 401 (Message ''No token provided, authorization denied''))
          else
            (case decode token of
               None \<Rightarrow> Ended (Response 401 (Message ''Invalid token''))
             | Some t \<Rightarrow>
                 (case jwt_verify t secret now of
                    Inl e \<Rightarrow> Ended (Response 401 (Message ''Invalid token''))
                  | Inr decoded \<Rightarrow> Next decoded)))"

section \<open>Auth Service: routes/auth.js\<close>

text \<open>
  Modelled from the spec: the User schema (models/User.js) is not among the sources. The
  spec gives a user a unique username, enforced at creation by the store: saving a user
  whose username is taken fails with the store's duplicate-key error.
\<close>

definition save_user :: "user \<Rightarrow> db \<Rightarrow> (error + unit) \<times> db" where
  "save_user u d =
     (if u_username u \<in> set (map u_username (users d))
      then (Inl (DuplicateKey ''username''), d)
      else (Inr (), d\<lparr>users := users d @ [u]\<rparr>))"

text \<open>\<^verbatim>\<open>User.findOne({ username })\<close>: the first match, or null.\<close>

definition findOne_user :: "string \<Rightarrow> db \<Rightarrow> user option" where
  "findOne_user username d = find (\<lambda>u. u_username u = username) (users d)"

text \<open>
  POST /register. The salt that bcrypt draws is an input of the model. The document's id
  is drawn when it is constructed, before the save.
\<close>

definition register :: "(string \<times> string \<times> string) handler" where
  "register req d =
     (case req of (username, password, slt) \<Rightarrow>
        let hashedPassword = bcrypt_hash password 10 slt;
            newUser = \<lparr>u_id = next_id d, u_username = username, u_password = hashedPassword\<rparr>;
            d1 = d\<lparr>next_id := Suc (next_id d)\<rparr>
        in (case save_user newUser d1 of
              (Inl e, d2) \<Rightarrow> (Inl e, d2)
            | (Inr u, d2) \<Rightarrow> (Inr (Response 201 (Message ''User registered successfully!'')), d2)))"

text \<open>POST /login, with the secret of the environment and the clock reading.\<close>

definition login :: "string option \<Rightarrow> nat \<Rightarrow> (string \<times> string) handler" where
  "login secret now req d =
     (case req of (username, password) \<Rightarrow>
        (case findOne_user username d of
           None \<Rightarrow> (Inr (Response 400 (Message ''Invalid credentials'')), d)
         | Some usr \<Rightarrow>
             if bcrypt_compare password (u_password usr) then
               (case jwt_sign (u_id usr) (u_username usr) secret one_hour now of
                  Inl e \<Rightarrow> (Inl e, d)
                | Inr token \<Rightarrow> (Inr (Response 200 (LoginBody ''Login successful!'' token)), d))
             else (Inr (Response 400 (Message ''Invalid credentials'')), d)))"

section \<open>Playlist Service: routes/playlists.js\<close>

text \<open>The \<^verbatim>\<open>required: true\<close> validator of a String path rejects a missing and an empty value.\<close>

definition required :: "string \<Rightarrow> string option \<Rightarrow> error + string" where
  "required path v =
     (case v of
        None \<Rightarrow> Inl (ValidationError path)
      | Some s \<Rightarrow> if s = [] then Inl (ValidationError path) else Inr s)"

text \<open>
  \<^verbatim>\<open>.populate('songs')\<close>: each reference is replaced by the song with that id; a
  reference to no song is dropped from the populated array.
\<close>

definition populate :: "song list \<Rightarrow> playlist \<Rightarrow> populated" where
  "populate catalog p =
     \<lparr>pp_id = p_id p, pp_name = p_name p, pp_userId = p_userId p,
      pp_songs = List.map_filter (\<lambda>i. find (\<lambda>s. s_id s = i) catalog) (p_songs p)\<rparr>"

text \<open>
  \<^verbatim>\<open>{ $addToSet: { songs: { $each: ids } } }\<close>: each id in turn is appended to the array
  unless the array already holds it. The elements already in the array are left as
  they are.
\<close>

fun addToSet :: "'a list \<Rightarrow> 'a list \<Rightarrow> 'a list" where
  "addToSet arr [] = arr"
| "addToSet arr (x # xs) = addToSet (if x \<in> set arr then arr else arr @ [x]) xs"

text \<open>\<^verbatim>\<open>findById\<close>, \<^verbatim>\<open>findByIdAndUpdate(id, update, { new: true })\<close> and
  \<^verbatim>\<open>findByIdAndDelete(id)\<close> on the playlists: the first document with the id.\<close>

definition findById :: "objectId \<Rightarrow> playlist list \<Rightarrow> playlist option" where
  "findById i ps = find (\<lambda>p. p_id p = i) ps"

fun findByIdAndUpdate ::
    "objectId \<Rightarrow> (playlist \<Rightarrow> playlist) \<Rightarrow> playlist list \<Rightarrow> playlist option \<times> playlist list" where
  "findByIdAndUpdate i f [] = (None, [])"
| "findByIdAndUpdate i f (p # ps) =
     (if p_id p = i then (Some (f p), f p # ps)
      else (case findByIdAndUpdate i f ps of (r, ps') \<Rightarrow> (r, p # ps')))"

fun findByIdAndDelete :: "objectId \<Rightarrow> playlist list \<Rightarrow> playlist option \<times> playlist list" where
  "findByIdAndDelete i [] = (None, [])"
| "findByIdAndDelete i (p # ps) =
     (if p_id p = i then (Some p, ps)
      else (case findByIdAndDelete i ps of (r, ps') \<Rightarrow> (r, p # ps')))"

text \<open>
  POST /: \<open>usr\<close> is \<^verbatim>\<open>req.user\<close>, the payload that the middleware attached; the body is
  \<^verbatim>\<open>{ name, songs }\<close>. The songs are stored as they are given.
\<close>

definition create :: "(claims \<times> string option \<times> objectId list) handler" where
  "create req d =
     (case req of (usr, name, sngs) \<Rightarrow>
        let d1 = d\<lparr>next_id := Suc (next_id d)\<rparr> in
        (case required ''name'' name of
           Inl e \<Rightarrow> (Inl e, d1)
         | Inr n \<Rightarrow>
             let newPlaylist =
                   \<lparr>p_id = next_id d, p_name = n, p_userId = c_userId usr, p_songs = sngs\<rparr>
             in (Inr (Response 201 (CreatedBody ''Playlist created successfully!'' newPlaylist)),
                 d1\<lparr>playlists := playlists d1 @ [newPlaylist]\<rparr>)))"

text \<open>GET /: \<^verbatim>\<open>Playlist.find({ userId: req.user.userId }).populate('songs')\<close>\<close>

definition listForOwner :: "claims handler" where
  "listForOwner usr d =
     (Inr (Response 200
        (PlaylistsBody
           (map (populate (songs d))
              (filter (\<lambda>p. p_userId p = c_userId usr) (playlists d))))), d)"

text \<open>PUT /:playlistId/songs: the request is \<^verbatim>\<open>req.user\<close>, the id and \<^verbatim>\<open>req.body.songs\<close>.\<close>

definition addSongs :: "(claims \<times> objectId \<times> objectId list) handler" where
  "addSongs req d =
     (case req of (usr, playlistId, sngs) \<Rightarrow>
        (case findByIdAndUpdate playlistId
                (\<lambda>p. p\<lparr>p_songs := addToSet (p_songs p) sngs\<rparr>) (playlists d) of
           (updatedPlaylist, ps) \<Rightarrow>
             (Inr (Response 200 (PlaylistBody (map_option (populate (songs d)) updatedPlaylist))),
              d\<lparr>playlists := ps\<rparr>)))"

text \<open>DELETE /:playlistId\<close>

definition delete :: "(claims \<times> objectId) handler" where
  "delete req d =
     (case req of (usr, playlistId) \<Rightarrow>
        (case findByIdAndDelete playlistId (playlists d) of
           (removed, ps) \<Rightarrow>
             (Inr (Response 200 (Message ''Playlist deleted successfully!'')),
              d\<lparr>playlists := ps\<rparr>)))"

text \<open>
  The two routes as Express hands them the request: \<^verbatim>\<open>req.params.playlistId\<close> is the
  string of the path. \<^verbatim>\<open>findByIdAndUpdate\<close> and \<^verbatim>\<open>findByIdAndDelete\<close> cast it to an
  ObjectId before they query, and reject with a CastError on the path \<^verbatim>\<open>_id\<close> when it
  does not cast; neither handler catches that. \<open>castObjectId\<close> is the cast of the library
  (\<open>None\<close>: the string does not cast).
\<close>

definition put_playlistId_songs ::
    "(string \<Rightarrow> objectId option) \<Rightarrow> (claims \<times> string \<times> objectId list) handler" where
  "put_playlistId_songs castObjectId req d =
     (case req of (usr, playlistId, sngs) \<Rightarrow>
        (case castObjectId playlistId of
           None \<Rightarrow> (Inl (CastError ''_id''), d)
         | Some i \<Rightarrow> addSongs (usr, i, sngs) d))"

definition delete_playlistId ::
    "(string \<Rightarrow> objectId option) \<Rightarrow> (claims \<times> string) handler" where
  "delete_playlistId castObjectId req d =
     (case req of (usr, playlistId) \<Rightarrow>
        (case castObjectId playlistId of
           None \<Rightarrow> (Inl (CastError ''_id''), d)
         | Some i \<Rightarrow> delete (usr, i) d))"

section \<open>The store operations\<close>

lemma set_addToSet: "set (addToSet arr xs) = set arr \<union> set xs"
  by (induction xs arbitrary: arr) auto

lemma distinct_addToSet: "distinct arr \<Longrightarrow> distinct (addToSet arr xs)"
  by (induction xs arbitrary: arr) auto

lemma findById_id: "findById i ps = Some p \<Longrightarrow> p_id p = i"
  by (auto simp: findById_def find_Some_iff)

lemma findByIdAndUpdate_found:
  "findById i ps = Some p \<Longrightarrow> p_id (f p) = i \<Longrightarrow>
   fst (findByIdAndUpdate i f ps) = Some (f p) \<and>
   findById i (snd (findByIdAndUpdate i f ps)) = Some (f p)"
  by (induction ps) (auto simp: findById_def split: prod.splits if_splits)

lemma findByIdAndUpdate_missing:
  "findById i ps = None \<Longrightarrow> findByIdAndUpdate i f ps = (None, ps)"
  by (induction ps) (auto simp: findById_def split: prod.splits if_splits)

lemma findByIdAndDelete_missing:
  "findById i ps = None \<Longrightarrow> findByIdAndDelete i ps = (None, ps)"
  by (induction ps) (auto simp: findById_def split: prod.splits if_splits)

lemma findByIdAndDelete_found:
  "findById i ps = Some p \<Longrightarrow>
   fst (findByIdAndDelete i ps) = Some p \<and>
   Suc (length (snd (findByIdAndDelete i ps))) = length ps"
  by (induction ps) (auto simp: findById_def split: prod.splits if_splits)

lemma findByIdAndDelete_ids:
  "distinct (map p_id ps) \<Longrightarrow> i \<notin> p_id ` set (snd (findByIdAndDelete i ps))"
  by (induction ps) (auto split: prod.splits)

lemma findByIdAndDelete_gone:
  "distinct (map p_id ps) \<Longrightarrow> findById i (snd (findByIdAndDelete i ps)) = None"
  using findByIdAndDelete_ids [of ps i] by (auto simp: findById_def find_None_iff)

lemma addSongs_found:
  assumes "findById pid (playlists d) = Some p"
  shows "addSongs (usr, pid, sngs) d =
           (Inr (Response 200 (PlaylistBody
              (Some (populate (songs d) (p\<lparr>p_songs := addToSet (p_songs p) sngs\<rparr>))))),
            d\<lparr>playlists := snd (findByIdAndUpdate pid
                 (\<lambda>p. p\<lparr>p_songs := addToSet (p_songs p) sngs\<rparr>) (playlists d))\<rparr>)"
    and "findById pid (playlists (snd (addSongs (usr, pid, sngs) d))) =
           Some (p\<lparr>p_songs := addToSet (p_songs p) sngs\<rparr>)"
proof -
  let ?f = "\<lambda>p. p\<lparr>p_songs := addToSet (p_songs p) sngs\<rparr>"
  from assms have "p_id (?f p) = pid"
    by (simp add: findById_id)
  from findByIdAndUpdate_found [of pid "playlists d" p ?f, OF assms this]
  show "addSongs (usr, pid, sngs) d =
           (Inr (Response 200 (PlaylistBody
              (Some (populate (songs d) (p\<lparr>p_songs := addToSet (p_songs p) sngs\<rparr>))))),
            d\<lparr>playlists := snd (findByIdAndUpdate pid
                 (\<lambda>p. p\<lparr>p_songs := addToSet (p_songs p) sngs\<rparr>) (playlists d))\<rparr>)"
    and "findById pid (playlists (snd (addSongs (usr, pid, sngs) d))) =
           Some (p\<lparr>p_songs := addToSet (p_songs p) sngs\<rparr>)"
    by (auto simp: addSongs_def split: prod.splits)
qed

lemma addSongs_songs: "songs (snd (addSongs req d)) = songs d"
  by (auto simp: addSongs_def split: prod.splits)

lemma findByIdAndUpdate_set:
  "set (snd (findByIdAndUpdate i f ps)) \<subseteq> set ps \<union> f ` set ps"
  by (induction ps) (auto split: prod.splits)

lemma findByIdAndDelete_set: "set (snd (findByIdAndDelete i ps)) \<subseteq> set ps"
  by (induction ps) (auto split: prod.splits)

lemma delete_eq:
  "delete (usr, pid) d =
     (Inr (Response 200 (Message ''Playlist deleted successfully!'')),
      d\<lparr>playlists := snd (findByIdAndDelete pid (playlists d))\<rparr>)"
  by (simp add: delete_def split_beta)

text \<open>
  The update and the removal keep every playlist of the store free of repeated songs when
  it was so before.
\<close>

lemma addSongs_keeps_distinct:
  assumes "\<forall>p\<in>set (playlists d). distinct (p_songs p)"
  shows "\<forall>p\<in>set (playlists (snd (addSongs (usr, pid, sngs) d))). distinct (p_songs p)"
proof
  fix q assume "q \<in> set (playlists (snd (addSongs (usr, pid, sngs) d)))"
  then have "q \<in> set (snd (findByIdAndUpdate pid
        (\<lambda>p. p\<lparr>p_songs := addToSet (p_songs p) sngs\<rparr>) (playlists d)))"
    by (simp add: addSongs_def split_beta)
  with findByIdAndUpdate_set
  have "q \<in> set (playlists d)
      \<or> q \<in> (\<lambda>p. p\<lparr>p_songs := addToSet (p_songs p) sngs\<rparr>) ` set (playlists d)"
    by fastforce
  with assms show "distinct (p_songs q)"
    by (auto simp: distinct_addToSet)
qed

lemma delete_keeps_distinct:
  assumes "\<forall>p\<in>set (playlists d). distinct (p_songs p)"
  shows "\<forall>p\<in>set (playlists (snd (delete (usr, pid) d))). distinct (p_songs p)"
  using assms findByIdAndDelete_set [of pid "playlists d"]
  by (auto simp: delete_eq)

lemma addSongs_delete_missing:
  assumes "findById pid (playlists d) = None"
  shows "addSongs (caller, pid, sngs) d = (Inr (Response 200 (PlaylistBody None)), d)
       \<and> delete (caller, pid) d
           = (Inr (Response 200 (Message ''Playlist deleted successfully!'')), d)"
  using assms
  by (simp add: addSongs_def delete_def findByIdAndUpdate_missing findByIdAndDelete_missing)

section \<open>Hashes, users and header fields\<close>

lemma bcrypt_compare_hash:
  "bcrypt_compare p (bcrypt_hash q r s) \<longleftrightarrow> take 72 p = take 72 q"
  by (auto simp: bcrypt_compare_def bcrypt_hash_def)

lemma findOne_user_None:
  "findOne_user username d = None \<longleftrightarrow> username \<notin> u_username ` set (users d)"
  by (auto simp: findOne_user_def find_None_iff)

lemma find_append_fresh: "find P xs = None \<Longrightarrow> find P (xs @ ys) = find P ys"
  by (induction xs) (auto split: if_splits)

lemma register_fresh:
  assumes "findOne_user username d = None"
  shows "register (username, password, slt) d =
           (Inr (Response 201 (Message ''User registered successfully!'')),
            d\<lparr>next_id := Suc (next_id d),
              users := users d @ [\<lparr>u_id = next_id d, u_username = username,
                                   u_password = bcrypt_hash password 10 slt\<rparr>]\<rparr>)"
  using assms by (simp add: register_def save_user_def findOne_user_None Let_def)

lemma register_taken:
  assumes "findOne_user username d = Some u"
  shows "register (username, password, slt) d =
           (Inl (DuplicateKey ''username''), d\<lparr>next_id := Suc (next_id d)\<rparr>)"
proof -
  from assms have "username \<in> u_username ` set (users d)"
    by (metis findOne_user_None option.distinct(1))
  then show ?thesis
    by (simp add: register_def save_user_def Let_def)
qed


lemma split_no_sep: "sep \<notin> set s \<Longrightarrow> split sep s = [s]"
  by (induction s) auto

lemma split_first_field: "sep \<notin> set s \<Longrightarrow> split sep (s @ sep # r) = s # split sep r"
  by (induction s) auto

lemma header_token_absent: "header_token None = None"
  by (simp add: header_token_def)

lemma header_token_bare: "CHR '' '' \<notin> set scheme \<Longrightarrow> header_token (Some scheme) = None"
  by (simp add: header_token_def split_no_sep)

lemma header_token_second:
  "CHR '' '' \<notin> set scheme \<Longrightarrow>
   header_token (Some (scheme @ CHR '' '' # rest)) = index (split CHR '' '' rest) 0"
  by (simp add: header_token_def split_first_field)

lemma header_token_scheme_token:
  "CHR '' '' \<notin> set scheme \<Longrightarrow> CHR '' '' \<notin> set token \<Longrightarrow>
   header_token (Some (scheme @ CHR '' '' # token)) = Some token"
  by (simp add: header_token_second split_no_sep)

section \<open>Adding songs twice\<close>

text \<open>
  C1, as the code has it. When the playlist exists, \<open>addSongs\<close> with \<open>S1\<close> and then with
  \<open>S2\<close> (by any callers) leaves a playlist whose songs, as a set, are the songs it held
  before together with \<open>S1\<close> and \<open>S2\<close>; the second response carries that playlist,
  populated; and when the songs held before had no repeats, the result has none, however
  \<open>S1\<close> and \<open>S2\<close> overlap each other, themselves or the songs held before.
\<close>

theorem addSongs_twice_union:
  assumes "findById pid (playlists d) = Some p"
  shows "\<exists>p'. findById pid (playlists (snd (addSongs (u2, pid, S2) (snd (addSongs (u1, pid, S1) d)))))
                 = Some p'
            \<and> fst (addSongs (u2, pid, S2) (snd (addSongs (u1, pid, S1) d)))
                 = Inr (Response 200 (PlaylistBody (Some (populate (songs d) p'))))
            \<and> set (p_songs p') = set (p_songs p) \<union> set S1 \<union> set S2
            \<and> (distinct (p_songs p) \<longrightarrow> distinct (p_songs p'))"
proof -
  let ?d1 = "snd (addSongs (u1, pid, S1) d)"
  let ?p1 = "p\<lparr>p_songs := addToSet (p_songs p) S1\<rparr>"
  let ?p2 = "?p1\<lparr>p_songs := addToSet (p_songs ?p1) S2\<rparr>"
  have 1: "findById pid (playlists ?d1) = Some ?p1"
    by (rule addSongs_found(2) [OF assms])
  have 2: "findById pid (playlists (snd (addSongs (u2, pid, S2) ?d1))) = Some ?p2"
    by (rule addSongs_found(2) [OF 1])
  have 3: "fst (addSongs (u2, pid, S2) ?d1)
             = Inr (Response 200 (PlaylistBody (Some (populate (songs d) ?p2))))"
    by (simp add: addSongs_found(1) [OF 1] addSongs_songs)
  have 4: "set (p_songs ?p2) = set (p_songs p) \<union> set S1 \<union> set S2"
    by (simp add: set_addToSet)
  have 5: "distinct (p_songs p) \<longrightarrow> distinct (p_songs ?p2)"
    by (simp add: distinct_addToSet)
  from 2 3 4 5 show ?thesis by blast
qed

text \<open>
  The scenario of the spec, continued: a playlist holding songs 1 and 2 receives
  \<open>[2, 3]\<close> from its owner and \<open>[3, 3, 4]\<close> from another user.
\<close>

theorem addSongs_twice_union_witness:
  "findById 5 [\<lparr>p_id = 5, p_name = ''Chill'', p_userId = 1, p_songs = [1, 2]\<rparr>]
     = Some \<lparr>p_id = 5, p_name = ''Chill'', p_userId = 1, p_songs = [1, 2]\<rparr>
   \<and> map p_songs (playlists (snd (addSongs
        (\<lparr>c_userId = 9, c_username = ''bob'', c_iat = 0, c_exp = 3600\<rparr>, 5, [3, 3, 4])
        (snd (addSongs
           (\<lparr>c_userId = 1, c_username = ''alice'', c_iat = 0, c_exp = 3600\<rparr>, 5, [2, 3])
           \<lparr>users = [], songs = [],
            playlists = [\<lparr>p_id = 5, p_name = ''Chill'', p_userId = 1, p_songs = [1, 2]\<rparr>],
            next_id = 6\<rparr>))))) = [[1, 2, 3, 4]]
   \<and> distinct [1, 2, 3, 4 :: nat]"
proof -
  let ?p = "\<lparr>p_id = 5, p_name = ''Chill'', p_userId = 1, p_songs = [1, 2]\<rparr>"
  let ?d = "\<lparr>users = [], songs = [], playlists = [?p], next_id = 6\<rparr>"
  have h: "findById 5 (playlists ?d) = Some ?p"
    by (simp add: findById_def)
  from addSongs_twice_union [OF h,
      of "\<lparr>c_userId = 9, c_username = ''bob'', c_iat = 0, c_exp = 3600\<rparr>" "[3, 3, 4]"
         "\<lparr>c_userId = 1, c_username = ''alice'', c_iat = 0, c_exp = 3600\<rparr>" "[2, 3]"]
  show ?thesis
    by (simp add: findById_def addSongs_def)
qed

text \<open>
  C1 as it is written fails on a playlist that is not empty: the songs held before stay.
  A playlist holding song 0 receives \<open>[1]\<close> and then \<open>[2]\<close>; it holds 0, 1 and 2, which
  is not the union of \<open>[1]\<close> and \<open>[2]\<close>.
\<close>

theorem addSongs_union_counterexample:
  "map p_songs (playlists (snd (addSongs
        (\<lparr>c_userId = 1, c_username = ''alice'', c_iat = 0, c_exp = 3600\<rparr>, 5, [2])
        (snd (addSongs
           (\<lparr>c_userId = 1, c_username = ''alice'', c_iat = 0, c_exp = 3600\<rparr>, 5, [1])
           \<lparr>users = [], songs = [],
            playlists = [\<lparr>p_id = 5, p_name = ''Chill'', p_userId = 1, p_songs = [0]\<rparr>],
            next_id = 6\<rparr>))))) = [[0, 1, 2]]
   \<and> 0 \<in> set [0, 1, 2 :: nat] \<and> 0 \<notin> set [1] \<union> set [2 :: nat]"
  by (simp add: addSongs_def)

section \<open>Repeated songs\<close>

text \<open>
  C2: the songs of a playlist hold no song twice. The update and the removal keep it so
  (\<open>addSongs_keeps_distinct\<close>, \<open>delete_keeps_distinct\<close>), but \<open>create\<close> stores the list
  of the request as it is: created with \<open>[7, 7]\<close>, the playlist holds song 7 twice.
\<close>

theorem create_keeps_repeats:
  "map p_songs (playlists (snd (create
        (\<lparr>c_userId = 1, c_username = ''alice'', c_iat = 0, c_exp = 3600\<rparr>, Some ''Chill'', [7, 7])
        \<lparr>users = [], songs = [], playlists = [], next_id = 0\<rparr>))) = [[7, 7]]
   \<and> \<not> distinct [7, 7 :: nat]"
  by (simp add: create_def required_def Let_def)

section \<open>Register, then log in\<close>

text \<open>
  C3: when the username is not yet in the store and the secret is set and not empty, \<open>register\<close>
  answers 201, and \<open>login\<close> with the same username and password on the store that
  \<open>register\<close> left answers 200 with a token; the payload of the token carries the
  registered username, and the token verifies at the time of the login.
\<close>

theorem register_then_login:
  assumes "findOne_user username d = None" and "secret = Some key" and "key \<noteq> []"
  shows "\<exists>token.
           fst (register (username, password, slt) d)
             = Inr (Response 201 (Message ''User registered successfully!''))
         \<and> fst (login secret now (username, password) (snd (register (username, password, slt) d)))
             = Inr (Response 200 (LoginBody ''Login successful!'' token))
         \<and> c_username (jwt_payload token) = username
         \<and> jwt_verify token secret now = Inr (jwt_payload token)"
proof -
  let ?u = "\<lparr>u_id = next_id d, u_username = username, u_password = bcrypt_hash password 10 slt\<rparr>"
  let ?d' = "snd (register (username, password, slt) d)"
  note k = assms(2,3)
  let ?t = "\<lparr>jwt_payload = \<lparr>c_userId = next_id d, c_username = username,
                c_iat = now, c_exp = now + one_hour\<rparr>, jwt_key = key\<rparr>"
  have r: "fst (register (username, password, slt) d)
             = Inr (Response 201 (Message ''User registered successfully!''))"
    by (simp add: register_fresh [OF assms(1)])
  have "find (\<lambda>u. u_username u = username) (users d) = None"
    using assms(1) by (simp add: findOne_user_def)
  then have f: "findOne_user username ?d' = Some ?u"
    by (simp add: register_fresh [OF assms(1)] findOne_user_def find_append_fresh)
  have l: "fst (login secret now (username, password) ?d')
             = Inr (Response 200 (LoginBody ''Login successful!'' ?t))"
    by (simp add: login_def f bcrypt_compare_hash jwt_sign_def k)
  have v: "jwt_verify ?t secret now = Inr (jwt_payload ?t)"
    by (simp add: jwt_verify_def k one_hour_def)
  have n: "c_username (jwt_payload ?t) = username" by simp
  from r l n v show ?thesis by blast
qed

text \<open>The first scenario of the spec: alice registers on an empty store and logs in.\<close>

theorem register_then_login_witness:
  "findOne_user ''alice'' \<lparr>users = [], songs = [], playlists = [], next_id = 0\<rparr> = None
   \<and> ''s3cret'' \<noteq> []
   \<and> fst (login (Some ''s3cret'') 1000 (''alice'', ''pw1'')
        (snd (register (''alice'', ''pw1'', ''salt'')
           \<lparr>users = [], songs = [], playlists = [], next_id = 0\<rparr>)))
      = Inr (Response 200 (LoginBody ''Login successful!''
          \<lparr>jwt_payload = \<lparr>c_userId = 0, c_username = ''alice'', c_iat = 1000, c_exp = 4600\<rparr>,
           jwt_key = ''s3cret''\<rparr>))"
proof -
  have h1: "findOne_user ''alice'' \<lparr>users = [], songs = [], playlists = [], next_id = 0\<rparr> = None"
    by (simp add: findOne_user_def)
  have h2: "Some ''s3cret'' = Some ''s3cret''" and h3: "''s3cret'' \<noteq> []"
    by simp_all
  from register_then_login [OF h1 h2 h3, of "''pw1''" "''salt''" 1000] h1 h3
  show ?thesis
    by (simp add: login_def register_def save_user_def findOne_user_def Let_def
        bcrypt_compare_def bcrypt_hash_def jwt_sign_def one_hour_def)
qed

section \<open>Registering a taken username\<close>

text \<open>
  C5, as the code has it. When the username is already in the store, \<open>register\<close> does not
  succeed and adds no user: the duplicate-key error of the save leaves the handler
  uncaught, and the handler sends no response.
\<close>

theorem register_taken_unhandled:
  assumes "findOne_user username d = Some u"
  shows "fst (register (username, password, slt) d) = Inl (DuplicateKey ''username'')
       \<and> users (snd (register (username, password, slt) d)) = users d"
  by (simp add: register_taken [OF assms])

theorem register_taken_unhandled_witness:
  "findOne_user ''alice''
     \<lparr>users = [\<lparr>u_id = 0, u_username = ''alice'', u_password = bcrypt_hash ''pw1'' 10 ''salt1''\<rparr>],
      songs = [], playlists = [], next_id = 1\<rparr>
     = Some \<lparr>u_id = 0, u_username = ''alice'', u_password = bcrypt_hash ''pw1'' 10 ''salt1''\<rparr>
   \<and> map u_id (users (snd (register (''alice'', ''pw2'', ''salt2'')
        \<lparr>users = [\<lparr>u_id = 0, u_username = ''alice'',
                    u_password = bcrypt_hash ''pw1'' 10 ''salt1''\<rparr>],
         songs = [], playlists = [], next_id = 1\<rparr>))) = [0]"
proof -
  let ?u = "\<lparr>u_id = 0, u_username = ''alice'', u_password = bcrypt_hash ''pw1'' 10 ''salt1''\<rparr>"
  let ?d = "\<lparr>users = [?u], songs = [], playlists = [], next_id = 1\<rparr>"
  have h: "findOne_user ''alice'' ?d = Some ?u"
    by (simp add: findOne_user_def)
  from register_taken_unhandled [OF h, of "''pw2''" "''salt2''"] h
  show ?thesis by simp
qed

text \<open>
  C5 as it is written fails: alice registers twice on an empty store, and the second
  request ends in the uncaught duplicate-key error, not in a response with a 4xx status
  and a message.
\<close>

theorem register_duplicate_counterexample:
  "fst (register (''alice'', ''pw2'', ''salt2'')
     (snd (register (''alice'', ''pw1'', ''salt1'')
        \<lparr>users = [], songs = [], playlists = [], next_id = 0\<rparr>)))
   = Inl (DuplicateKey ''username'')"
  by (simp add: register_def save_user_def Let_def)

section \<open>Invalid credentials\<close>




section \<open>The lifetime of a token\<close>

text \<open>
  C7: tokens are issued by \<open>login\<close> only. A token that \<open>login\<close> returned at clock reading
  \<open>issued\<close> carries that reading as \<^verbatim>\<open>iat\<close> and \<open>issued + 3600\<close> as \<^verbatim>\<open>exp\<close>; under the
  secret of the login it verifies at every clock reading before \<^verbatim>\<open>exp\<close>, the reading of
  the issuance included, and is refused as expired at \<^verbatim>\<open>exp\<close> and at every reading after
  it. Clock readings are whole seconds, as the library takes them.
\<close>

theorem login_token_expiry:
  assumes "fst (login secret issued req d) = Inr (Response st (LoginBody msg token))"
  shows "c_iat (jwt_payload token) = issued
       \<and> c_exp (jwt_payload token) = issued + 3600
       \<and> (\<forall>t. t < issued + 3600 \<longrightarrow> jwt_verify token secret t = Inr (jwt_payload token))
       \<and> (\<forall>t. issued + 3600 \<le> t \<longrightarrow> jwt_verify token secret t = Inl TokenExpiredError)"
  using assms
  by (auto simp: login_def jwt_sign_def jwt_verify_def one_hour_def
      split: prod.splits option.splits if_splits)

text \<open>Alice logs in at second 1000: the token is good at 1000 and at 4599, expired at 4600.\<close>

theorem login_token_expiry_witness:
  "fst (login (Some ''s3cret'') 1000 (''alice'', ''pw1'')
     \<lparr>users = [\<lparr>u_id = 0, u_username = ''alice'', u_password = bcrypt_hash ''pw1'' 10 ''salt1''\<rparr>],
      songs = [], playlists = [], next_id = 1\<rparr>)
     = Inr (Response 200 (LoginBody ''Login successful!''
          \<lparr>jwt_payload = \<lparr>c_userId = 0, c_username = ''alice'', c_iat = 1000, c_exp = 4600\<rparr>,
           jwt_key = ''s3cret''\<rparr>))
   \<and> jwt_verify
        \<lparr>jwt_payload = \<lparr>c_userId = 0, c_username = ''alice'', c_iat = 1000, c_exp = 4600\<rparr>,
         jwt_key = ''s3cret''\<rparr> (Some ''s3cret'') 1000
      = Inr \<lparr>c_userId = 0, c_username = ''alice'', c_iat = 1000, c_exp = 4600\<rparr>
   \<and> jwt_verify
        \<lparr>jwt_payload = \<lparr>c_userId = 0, c_username = ''alice'', c_iat = 1000, c_exp = 4600\<rparr>,
         jwt_key = ''s3cret''\<rparr> (Some ''s3cret'') 4599
      = Inr \<lparr>c_userId = 0, c_username = ''alice'', c_iat = 1000, c_exp = 4600\<rparr>
   \<and> jwt_verify
        \<lparr>jwt_payload = \<lparr>c_userId = 0, c_username = ''alice'', c_iat = 1000, c_exp = 4600\<rparr>,
         jwt_key = ''s3cret''\<rparr> (Some ''s3cret'') 4600
      = Inl TokenExpiredError"
proof -
  let ?u = "\<lparr>u_id = 0, u_username = ''alice'', u_password = bcrypt_hash ''pw1'' 10 ''salt1''\<rparr>"
  let ?d = "\<lparr>users = [?u], songs = [], playlists = [], next_id = 1\<rparr>"
  let ?t = "\<lparr>jwt_payload = \<lparr>c_userId = 0, c_username = ''alice'', c_iat = 1000, c_exp = 4600\<rparr>,
             jwt_key = ''s3cret''\<rparr>"
  have h: "fst (login (Some ''s3cret'') 1000 (''alice'', ''pw1'') ?d)
             = Inr (Response 200 (LoginBody ''Login successful!'' ?t))"
    by (simp add: login_def findOne_user_def bcrypt_compare_hash jwt_sign_def one_hour_def)
  from login_token_expiry [OF h] have
    "\<forall>t. t < 1000 + 3600 \<longrightarrow> jwt_verify ?t (Some ''s3cret'') t = Inr (jwt_payload ?t)"
    "\<forall>t. 1000 + 3600 \<le> t \<longrightarrow> jwt_verify ?t (Some ''s3cret'') t = Inl TokenExpiredError"
    by blast+
  then have "jwt_verify ?t (Some ''s3cret'') 1000 = Inr (jwt_payload ?t)"
    and "jwt_verify ?t (Some ''s3cret'') 4599 = Inr (jwt_payload ?t)"
    and "jwt_verify ?t (Some ''s3cret'') 4600 = Inl TokenExpiredError"
    by simp_all
  with h show ?thesis by simp
qed

section \<open>The Authorization header\<close>

text \<open>
  C4, as the code has it. The middleware reads the second space-separated field of the
  Authorization header and never looks at the scheme in front of it. With no header, and
  with a header that has no second field, it answers 401 'No token provided,
  authorization denied'. Two headers that differ in the scheme only are treated alike: a
  second field that decodes and verifies is passed on with its payload whatever the
  scheme. Nothing is passed on unless the second field is a non-empty token that decodes
  and verifies, and every response of the middleware itself is a 401 with a message.
\<close>

theorem authMiddleware_second_field:
  "authMiddleware decode secret now None
     = Ended (Response 401 (Message ''No token provided, authorization denied''))
   \<and> (CHR '' '' \<notin> set bare \<longrightarrow>
        authMiddleware decode secret now (Some bare)
          = Ended (Response 401 (Message ''No token provided, authorization denied'')))
   \<and> (CHR '' '' \<notin> set scheme \<and> CHR '' '' \<notin> set scheme' \<longrightarrow>
        authMiddleware decode secret now (Some (scheme @ CHR '' '' # rest))
          = authMiddleware decode secret now (Some (scheme' @ CHR '' '' # rest)))
   \<and> (CHR '' '' \<notin> set scheme \<and> CHR '' '' \<notin> set token \<and> token \<noteq> []
        \<and> decode token = Some t \<and> jwt_verify t secret now = Inr usr \<longrightarrow>
        authMiddleware decode secret now (Some (scheme @ CHR '' '' # token)) = Next usr)
   \<and> (authMiddleware decode secret now passing = Next usr' \<longrightarrow>
        (\<exists>token' t'. header_token passing = Some token' \<and> token' \<noteq> []
           \<and> decode token' = Some t' \<and> jwt_verify t' secret now = Inr usr'))
   \<and> (authMiddleware decode secret now failing = Ended r \<longrightarrow>
        status r = 401 \<and> (\<exists>m. content r = Message m))"
proof -
  have a: "authMiddleware decode secret now None
     = Ended (Response 401 (Message ''No token provided, authorization denied''))"
    by (simp add: authMiddleware_def header_token_absent)
  have b: "CHR '' '' \<notin> set bare \<longrightarrow>
        authMiddleware decode secret now (Some bare)
          = Ended (Response 401 (Message ''No token provided, authorization denied''))"
    by (simp add: authMiddleware_def header_token_bare)
  have c: "CHR '' '' \<notin> set scheme \<and> CHR '' '' \<notin> set scheme' \<longrightarrow>
        authMiddleware decode secret now (Some (scheme @ CHR '' '' # rest))
          = authMiddleware decode secret now (Some (scheme' @ CHR '' '' # rest))"
    by (simp add: authMiddleware_def header_token_second)
  have d: "CHR '' '' \<notin> set scheme \<and> CHR '' '' \<notin> set token \<and> token \<noteq> []
        \<and> decode token = Some t \<and> jwt_verify t secret now = Inr usr \<longrightarrow>
        authMiddleware decode secret now (Some (scheme @ CHR '' '' # token)) = Next usr"
    by (simp add: authMiddleware_def header_token_scheme_token)
  have e: "authMiddleware decode secret now passing = Next usr' \<longrightarrow>
        (\<exists>token' t'. header_token passing = Some token' \<and> token' \<noteq> []
           \<and> decode token' = Some t' \<and> jwt_verify t' secret now = Inr usr')"
    by (auto simp: authMiddleware_def split: option.splits if_splits sum.splits)
  have f: "authMiddleware decode secret now failing = Ended r \<longrightarrow>
        status r = 401 \<and> (\<exists>m. content r = Message m)"
    by (auto simp: authMiddleware_def split: option.splits if_splits sum.splits)
  from a b c d e f show ?thesis by blast
qed

text \<open>
  Alice's token, serialised as \<open>abc\<close>, at second 100 of its hour: sent as
  \<open>Bearer abc\<close> and as \<open>Token abc\<close> it is passed on; \<open>Bearer\<close> alone has no
  second field; \<open>Bearer xyz\<close> carries no token that decodes.
\<close>

theorem authMiddleware_second_field_witness:
  "authMiddleware
     (Map.empty(''abc'' \<mapsto>
        \<lparr>jwt_payload = \<lparr>c_userId = 0, c_username = ''alice'', c_iat = 0, c_exp = 3600\<rparr>,
         jwt_key = ''s3cret''\<rparr>))
     (Some ''s3cret'') 100 (Some ''Bearer abc'')
     = Next \<lparr>c_userId = 0, c_username = ''alice'', c_iat = 0, c_exp = 3600\<rparr>
   \<and> authMiddleware
     (Map.empty(''abc'' \<mapsto>
        \<lparr>jwt_payload = \<lparr>c_userId = 0, c_username = ''alice'', c_iat = 0, c_exp = 3600\<rparr>,
         jwt_key = ''s3cret''\<rparr>))
     (Some ''s3cret'') 100 (Some ''Token abc'')
     = Next \<lparr>c_userId = 0, c_username = ''alice'', c_iat = 0, c_exp = 3600\<rparr>
   \<and> authMiddleware
     (Map.empty(''abc'' \<mapsto>
        \<lparr>jwt_payload = \<lparr>c_userId = 0, c_username = ''alice'', c_iat = 0, c_exp = 3600\<rparr>,
         jwt_key = ''s3cret''\<rparr>))
     (Some ''s3cret'') 100 (Some ''Bearer'')
     = Ended (Response 401 (Message ''No token provided, authorization denied''))
   \<and> authMiddleware
     (Map.empty(''abc'' \<mapsto>
        \<lparr>jwt_payload = \<lparr>c_userId = 0, c_username = ''alice'', c_iat = 0, c_exp = 3600\<rparr>,
         jwt_key = ''s3cret''\<rparr>))
     (Some ''s3cret'') 100 (Some ''Bearer xyz'')
     = Ended (Response 401 (Message ''Invalid token''))
   \<and> status (Response 401 (Message ''Invalid token'')) = 401"
proof -
  let ?p = "\<lparr>c_userId = 0, c_username = ''alice'', c_iat = 0, c_exp = 3600\<rparr>"
  let ?t = "\<lparr>jwt_payload = ?p, jwt_key = ''s3cret''\<rparr>"
  let ?decode = "Map.empty(''abc'' \<mapsto> ?t)"
  let ?mw = "authMiddleware ?decode (Some ''s3cret'') 100"
  have h1: "CHR '' '' \<notin> set ''Bearer''" and h2: "CHR '' '' \<notin> set ''Token''"
    and h3: "CHR '' '' \<notin> set ''abc''" and h4: "''abc'' \<noteq> []"
    by simp_all
  have h5: "?decode ''abc'' = Some ?t" by simp
  have h6: "jwt_verify ?t (Some ''s3cret'') 100 = Inr ?p"
    by (simp add: jwt_verify_def)
  have h7: "?mw (Some ''Bearer xyz'') = Ended (Response 401 (Message ''Invalid token''))"
    by (simp add: authMiddleware_def header_token_def)
  note inst = authMiddleware_second_field [where decode = ?decode and secret = "Some ''s3cret''"
      and now = 100 and bare = "''Bearer''" and scheme = "''Bearer''" and scheme' = "''Token''"
      and rest = "''abc''" and token = "''abc''" and t = ?t and usr = ?p
      and passing = "Some ''Bearer abc''" and usr' = ?p
      and failing = "Some ''Bearer xyz''" and r = "Response 401 (Message ''Invalid token'')"]
  from inst h1 have bare: "?mw (Some ''Bearer'')
      = Ended (Response 401 (Message ''No token provided, authorization denied''))"
    by blast
  from inst h1 h3 h4 h5 h6 have bearer: "?mw (Some (''Bearer'' @ CHR '' '' # ''abc'')) = Next ?p"
    by blast
  from inst h1 h2 have "?mw (Some (''Bearer'' @ CHR '' '' # ''abc''))
      = ?mw (Some (''Token'' @ CHR '' '' # ''abc''))"
    by blast
  with bearer have other: "?mw (Some (''Token'' @ CHR '' '' # ''abc'')) = Next ?p"
    by simp
  from inst h7 have st: "status (Response 401 (Message ''Invalid token'')) = 401"
    by blast
  from bare bearer other h7 st show ?thesis by simp
qed

text \<open>
  C4 as it is written fails: a header with the scheme \<open>Basic\<close> in front of a token that
  verifies is not treated as a missing token; the middleware passes the request on.
\<close>

theorem authMiddleware_scheme_counterexample:
  "authMiddleware
     (Map.empty(''abc'' \<mapsto>
        \<lparr>jwt_payload = \<lparr>c_userId = 0, c_username = ''alice'', c_iat = 0, c_exp = 3600\<rparr>,
         jwt_key = ''s3cret''\<rparr>))
     (Some ''s3cret'') 100 (Some ''Basic abc'')
   = Next \<lparr>c_userId = 0, c_username = ''alice'', c_iat = 0, c_exp = 3600\<rparr>"
  by (simp add: authMiddleware_def header_token_def jwt_verify_def)

section \<open>Listing, and playlists of other owners\<close>

text \<open>
  C8: \<open>listForOwner\<close> always answers 200 with a list of playlists; every playlist of the
  list has the caller's \<^verbatim>\<open>userId\<close> as its owner, and is a playlist of the store, populated.
\<close>

theorem listForOwner_scoped:
  "\<exists>ps. listForOwner usr d = (Inr (Response 200 (PlaylistsBody ps)), d)
      \<and> (\<forall>p\<in>set ps. pp_userId p = c_userId usr)
      \<and> (\<forall>p\<in>set ps. \<exists>q\<in>set (playlists d). p = populate (songs d) q)"
  by (auto simp: listForOwner_def populate_def)

text \<open>Users 1 and 2 own one playlist each; user 1 is shown the first only.\<close>

theorem listForOwner_scoped_witness:
  "listForOwner \<lparr>c_userId = 1, c_username = ''alice'', c_iat = 0, c_exp = 3600\<rparr>
     \<lparr>users = [],
      songs = [\<lparr>s_id = 7, s_name = ''Song'', s_artist = ''A'', s_genre = ''G'', s_filePath = ''uploads/s.mp3''\<rparr>],
      playlists = [\<lparr>p_id = 5, p_name = ''Chill'', p_userId = 1, p_songs = [7, 8]\<rparr>,
                   \<lparr>p_id = 6, p_name = ''Rock'', p_userId = 2, p_songs = [7]\<rparr>],
      next_id = 9\<rparr>
   = (Inr (Response 200 (PlaylistsBody
        [\<lparr>pp_id = 5, pp_name = ''Chill'', pp_userId = 1,
          pp_songs = [\<lparr>s_id = 7, s_name = ''Song'', s_artist = ''A'', s_genre = ''G'',
                       s_filePath = ''uploads/s.mp3''\<rparr>]\<rparr>])),
      \<lparr>users = [],
       songs = [\<lparr>s_id = 7, s_name = ''Song'', s_artist = ''A'', s_genre = ''G'', s_filePath = ''uploads/s.mp3''\<rparr>],
       playlists = [\<lparr>p_id = 5, p_name = ''Chill'', p_userId = 1, p_songs = [7, 8]\<rparr>,
                    \<lparr>p_id = 6, p_name = ''Rock'', p_userId = 2, p_songs = [7]\<rparr>],
       next_id = 9\<rparr>)
   \<and> pp_userId \<lparr>pp_id = 5, pp_name = ''Chill'', pp_userId = 1,
          pp_songs = [\<lparr>s_id = 7, s_name = ''Song'', s_artist = ''A'', s_genre = ''G'',
                       s_filePath = ''uploads/s.mp3''\<rparr>]\<rparr> = (1 :: nat)"
  using listForOwner_scoped
    [of "\<lparr>c_userId = 1, c_username = ''alice'', c_iat = 0, c_exp = 3600\<rparr>"
        "\<lparr>users = [],
          songs = [\<lparr>s_id = 7, s_name = ''Song'', s_artist = ''A'', s_genre = ''G'', s_filePath = ''uploads/s.mp3''\<rparr>],
          playlists = [\<lparr>p_id = 5, p_name = ''Chill'', p_userId = 1, p_songs = [7, 8]\<rparr>,
                       \<lparr>p_id = 6, p_name = ''Rock'', p_userId = 2, p_songs = [7]\<rparr>],
          next_id = 9\<rparr>"]
  by (simp add: listForOwner_def populate_def List.map_filter_simps)

text \<open>
  C9: for an existing playlist and any caller, whoever owns the playlist, \<open>addSongs\<close>
  answers 200 with the updated playlist and the store holds the update; \<open>delete\<close> answers
  200 and the store holds one playlist less, none of them with that id when the ids of
  the store are distinct. The caller has no part in either result.
\<close>

theorem mutation_ignores_owner:
  assumes "findById pid (playlists d) = Some p"
  shows "fst (addSongs (caller, pid, sngs) d)
           = Inr (Response 200 (PlaylistBody
               (Some (populate (songs d) (p\<lparr>p_songs := addToSet (p_songs p) sngs\<rparr>)))))
       \<and> findById pid (playlists (snd (addSongs (caller, pid, sngs) d)))
           = Some (p\<lparr>p_songs := addToSet (p_songs p) sngs\<rparr>)
       \<and> fst (delete (caller, pid) d)
           = Inr (Response 200 (Message ''Playlist deleted successfully!''))
       \<and> Suc (length (playlists (snd (delete (caller, pid) d)))) = length (playlists d)
       \<and> (distinct (map p_id (playlists d)) \<longrightarrow>
            findById pid (playlists (snd (delete (caller, pid) d))) = None)
       \<and> addSongs (caller, pid, sngs) d = addSongs (other, pid, sngs) d
       \<and> delete (caller, pid) d = delete (other, pid) d"
proof -
  have 1: "fst (addSongs (caller, pid, sngs) d)
           = Inr (Response 200 (PlaylistBody
               (Some (populate (songs d) (p\<lparr>p_songs := addToSet (p_songs p) sngs\<rparr>)))))"
    by (simp add: addSongs_found(1) [OF assms])
  have 2: "findById pid (playlists (snd (addSongs (caller, pid, sngs) d)))
           = Some (p\<lparr>p_songs := addToSet (p_songs p) sngs\<rparr>)"
    by (rule addSongs_found(2) [OF assms])
  have 3: "fst (delete (caller, pid) d)
           = Inr (Response 200 (Message ''Playlist deleted successfully!''))"
    by (simp add: delete_eq)
  have 4: "Suc (length (playlists (snd (delete (caller, pid) d)))) = length (playlists d)"
    using findByIdAndDelete_found [OF assms]
    by (simp add: delete_eq)
  have 5: "distinct (map p_id (playlists d)) \<longrightarrow>
            findById pid (playlists (snd (delete (caller, pid) d))) = None"
    using findByIdAndDelete_gone [of "playlists d" pid]
    by (simp add: delete_eq)
  have 6: "addSongs (caller, pid, sngs) d = addSongs (other, pid, sngs) d"
    by (simp add: addSongs_def)
  have 7: "delete (caller, pid) d = delete (other, pid) d"
    by (simp add: delete_def)
  from 1 2 3 4 5 6 7 show ?thesis by blast
qed

text \<open>Bob, user 9, adds a song to alice's playlist and deletes it.\<close>

theorem mutation_ignores_owner_witness:
  "findById 5 [\<lparr>p_id = 5, p_name = ''Chill'', p_userId = 1, p_songs = [1, 2]\<rparr>]
     = Some \<lparr>p_id = 5, p_name = ''Chill'', p_userId = 1, p_songs = [1, 2]\<rparr>
   \<and> c_userId \<lparr>c_userId = 9, c_username = ''bob'', c_iat = 0, c_exp = 3600\<rparr>
     \<noteq> p_userId \<lparr>p_id = 5, p_name = ''Chill'', p_userId = 1, p_songs = [1, 2]\<rparr>
   \<and> distinct (map p_id [\<lparr>p_id = 5, p_name = ''Chill'', p_userId = 1, p_songs = [1, 2]\<rparr>])
   \<and> playlists (snd (addSongs (\<lparr>c_userId = 9, c_username = ''bob'', c_iat = 0, c_exp = 3600\<rparr>, 5, [2, 3])
        \<lparr>users = [], songs = [],
         playlists = [\<lparr>p_id = 5, p_name = ''Chill'', p_userId = 1, p_songs = [1, 2]\<rparr>],
         next_id = 6\<rparr>))
     = [\<lparr>p_id = 5, p_name = ''Chill'', p_userId = 1, p_songs = [1, 2, 3]\<rparr>]
   \<and> delete (\<lparr>c_userId = 9, c_username = ''bob'', c_iat = 0, c_exp = 3600\<rparr>, 5)
        \<lparr>users = [], songs = [],
         playlists = [\<lparr>p_id = 5, p_name = ''Chill'', p_userId = 1, p_songs = [1, 2]\<rparr>],
         next_id = 6\<rparr>
     = (Inr (Response 200 (Message ''Playlist deleted successfully!'')),
        \<lparr>users = [], songs = [], playlists = [], next_id = 6\<rparr>)"
proof -
  let ?bob = "\<lparr>c_userId = 9, c_username = ''bob'', c_iat = 0, c_exp = 3600\<rparr>"
  let ?p = "\<lparr>p_id = 5, p_name = ''Chill'', p_userId = 1, p_songs = [1, 2]\<rparr>"
  let ?d = "\<lparr>users = [], songs = [], playlists = [?p], next_id = 6\<rparr>"
  have h: "findById 5 (playlists ?d) = Some ?p"
    by (simp add: findById_def)
  have i: "distinct (map p_id (playlists ?d))" by simp
  from mutation_ignores_owner [OF h, of ?bob "[2, 3]" ?bob] h i
  show ?thesis
    by (simp add: findById_def addSongs_def delete_def)
qed

section \<open>A playlist that is not there\<close>

text \<open>
  C10, as the code has it. When the id of the path casts to an ObjectId and no playlist
  of the store has that id, PUT /:playlistId/songs answers 200 with a null body and
  DELETE /:playlistId answers 200 with its message of success; neither fails and neither
  changes the store.
\<close>

theorem missing_playlist_castable:
  assumes "castObjectId playlistId = Some pid" and "findById pid (playlists d) = None"
  shows "put_playlistId_songs castObjectId (caller, playlistId, sngs) d
           = (Inr (Response 200 (PlaylistBody None)), d)
       \<and> delete_playlistId castObjectId (caller, playlistId) d
           = (Inr (Response 200 (Message ''Playlist deleted successfully!'')), d)"
  using assms addSongs_delete_missing [OF assms(2), of caller sngs]
  by (simp add: put_playlistId_songs_def delete_playlistId_def)

text \<open>The store holds playlist 5; the path names playlist 4.\<close>

theorem missing_playlist_castable_witness:
  "(Map.empty(''000000000000000000000004'' \<mapsto> 4)) ''000000000000000000000004''
     = Some (4 :: nat)
   \<and> findById 4 [\<lparr>p_id = 5, p_name = ''Chill'', p_userId = 1, p_songs = [1, 2]\<rparr>] = None
   \<and> fst (put_playlistId_songs (Map.empty(''000000000000000000000004'' \<mapsto> 4))
        (\<lparr>c_userId = 1, c_username = ''alice'', c_iat = 0, c_exp = 3600\<rparr>,
         ''000000000000000000000004'', [2, 3])
        \<lparr>users = [], songs = [],
         playlists = [\<lparr>p_id = 5, p_name = ''Chill'', p_userId = 1, p_songs = [1, 2]\<rparr>],
         next_id = 6\<rparr>)
     = Inr (Response 200 (PlaylistBody None))
   \<and> fst (delete_playlistId (Map.empty(''000000000000000000000004'' \<mapsto> 4))
        (\<lparr>c_userId = 1, c_username = ''alice'', c_iat = 0, c_exp = 3600\<rparr>,
         ''000000000000000000000004'')
        \<lparr>users = [], songs = [],
         playlists = [\<lparr>p_id = 5, p_name = ''Chill'', p_userId = 1, p_songs = [1, 2]\<rparr>],
         next_id = 6\<rparr>)
     = Inr (Response 200 (Message ''Playlist deleted successfully!''))"
proof -
  let ?alice = "\<lparr>c_userId = 1, c_username = ''alice'', c_iat = 0, c_exp = 3600\<rparr>"
  let ?p = "\<lparr>p_id = 5, p_name = ''Chill'', p_userId = 1, p_songs = [1, 2]\<rparr>"
  let ?d = "\<lparr>users = [], songs = [], playlists = [?p], next_id = 6\<rparr>"
  let ?cast = "Map.empty(''000000000000000000000004'' \<mapsto> (4 :: nat))"
  have c: "?cast ''000000000000000000000004'' = Some 4"
    by simp
  have h: "findById 4 (playlists ?d) = None"
    by (simp add: findById_def)
  from missing_playlist_castable [where castObjectId = ?cast
      and playlistId = "''000000000000000000000004''" and pid = 4 and d = ?d
      and caller = ?alice and sngs = "[2, 3]", OF c h] c h
  show ?thesis by simp
qed

text \<open>
  C10 as it is written fails on an id that does not cast: \<open>notanid\<close> is the id of no
  playlist of the store, and both requests end in the uncaught CastError, with no
  response.
\<close>

theorem missing_playlist_cast_counterexample:
  "fst (put_playlistId_songs (Map.empty(''000000000000000000000004'' \<mapsto> 4))
        (\<lparr>c_userId = 1, c_username = ''alice'', c_iat = 0, c_exp = 3600\<rparr>, ''notanid'', [2, 3])
        \<lparr>users = [], songs = [],
         playlists = [\<lparr>p_id = 5, p_name = ''Chill'', p_userId = 1, p_songs = [1, 2]\<rparr>],
         next_id = 6\<rparr>)
     = Inl (CastError ''_id'')
   \<and> fst (delete_playlistId (Map.empty(''000000000000000000000004'' \<mapsto> 4))
        (\<lparr>c_userId = 1, c_username = ''alice'', c_iat = 0, c_exp = 3600\<rparr>, ''notanid'')
        \<lparr>users = [], songs = [],
         playlists = [\<lparr>p_id = 5, p_name = ''Chill'', p_userId = 1, p_songs = [1, 2]\<rparr>],
         next_id = 6\<rparr>)
     = Inl (CastError ''_id'')"
  by (simp add: put_playlistId_songs_def delete_playlistId_def)

end
